theory Spec2Isabelle
  imports Main "HOL-Library.Sublist"
begin

section \<open>Field paths and versioned sets\<close>

text \<open>
  The field manager works on values of the structured-merge-diff library. A
  \<open>fieldpath.Path\<close> is a sequence of path elements, a \<open>fieldpath.Set\<close> is a set of
  paths with \<open>Union\<close>, \<open>Difference\<close> and \<open>Empty\<close>, and a \<open>fieldpath.VersionedSet\<close>
  pairs a set with an API version and the applied flag. The library's trie
  representation of a set is not observable through these operations, so a set is
  a HOL set of paths.
\<close>

datatype PathElement =
    FieldName string
  | Key "(string \<times> string) list"
  | Value string
  | Index int

type_synonym Path = "PathElement list"

text \<open>\<open>fieldpath.MakePathOrDie\<close> on string arguments: every string names a field.\<close>

definition MakePathOrDie :: "string list \<Rightarrow> Path" where
  "MakePathOrDie parts = map FieldName parts"

record VersionedSet =
  vs_Set :: "Path set"
  vs_APIVersion :: string
  vs_Applied :: bool

definition NewVersionedSet :: "Path set \<Rightarrow> string \<Rightarrow> bool \<Rightarrow> VersionedSet" where
  "NewVersionedSet s v a = \<lparr>vs_Set = s, vs_APIVersion = v, vs_Applied = a\<rparr>"

text \<open>
  \<open>fieldpath.ManagedFields\<close> is \<open>map[string]VersionedSet\<close>. \<open>VersionedSet\<close> is an
  interface, so a key that is present can hold the nil interface value: the value
  stored under a key is \<open>None\<close> for nil and \<open>Some vs\<close> otherwise.
\<close>

type_synonym ManagedFields = "string \<rightharpoonup> VersionedSet option"

section \<open>The field stripper\<close>

text \<open>\<open>stripSet\<close> (lines 287-301): the fields that are never part of a managedFields.\<close>

definition stripSet :: "Path set" where
  "stripSet = {
     MakePathOrDie [''apiVersion''],
     MakePathOrDie [''kind''],
     MakePathOrDie [''metadata''],
     MakePathOrDie [''metadata'', ''name''],
     MakePathOrDie [''metadata'', ''namespace''],
     MakePathOrDie [''metadata'', ''creationTimestamp''],
     MakePathOrDie [''metadata'', ''selfLink''],
     MakePathOrDie [''metadata'', ''uid''],
     MakePathOrDie [''metadata'', ''clusterName''],
     MakePathOrDie [''metadata'', ''generation''],
     MakePathOrDie [''metadata'', ''managedFields''],
     MakePathOrDie [''metadata'', ''resourceVersion'']}"

text \<open>
  \<open>stripFields\<close> (lines 303-319). The Go function updates the map in place and
  returns it; the model returns the updated map. A panic is the \<open>Inl\<close> result and
  carries the panic message. The receiver is not used by the body.
\<close>

definition stripFields :: "ManagedFields \<Rightarrow> string \<Rightarrow> string + ManagedFields" where
  "stripFields managed manager =
     (case managed manager of
        None \<Rightarrow> Inr managed
      | Some None \<Rightarrow>
          Inl (''Found unexpected nil manager which should never happen: '' @ manager)
      | Some (Some vs) \<Rightarrow>
          (let newSet = vs_Set vs - stripSet in
           if newSet = {} then Inr (managed(manager := None))
           else Inr (managed(manager \<mapsto>
                  Some (NewVersionedSet newSet (vs_APIVersion vs) (vs_Applied vs))))))"

section \<open>Errors and results\<close>

text \<open>
  A Go \<open>error\<close> is an interface value. Three dynamic kinds matter to this file:
  \<open>merge.Conflicts\<close>, which \<open>Apply\<close> recognises by a type assertion; the API status
  errors made by \<open>errors.NewBadRequest\<close> and \<open>internal.NewConflictError\<close>; and every
  other error, of which only the message is observable (this is also what
  \<open>fmt.Errorf\<close> makes). Every error carries the text its \<open>Error()\<close> method returns.
\<close>

datatype Conflict = Conflict string Path

datatype StatusReason =
    StatusReasonBadRequest
  | StatusReasonConflict
  | StatusReasonOther string

datatype error =
    ErrorString string
  | Conflicts "Conflict list" string
  | StatusError StatusReason string

fun Error :: "error \<Rightarrow> string" where
  "Error (ErrorString msg) = msg"
| "Error (Conflicts conflicts msg) = msg"
| "Error (StatusError reason msg) = msg"

text \<open>\<open>fmt.Errorf(format + "%v", err)\<close>: the format's text followed by the error's message.\<close>

definition Errorf :: "string \<Rightarrow> error \<Rightarrow> error" where
  "Errorf format err = ErrorString (format @ Error err)"

text \<open>
  Modelled from the spec: \<open>errors.NewBadRequest\<close> of k8s.io/apimachinery is not part of
  the source file; it gives the bad-request-class error that carries the given
  human-readable message.
\<close>

definition NewBadRequest :: "string \<Rightarrow> error" where
  "NewBadRequest reason = StatusError StatusReasonBadRequest reason"

text \<open>
  \<open>Update\<close> and \<open>Apply\<close> return the Go pair \<open>(runtime.Object, error)\<close>, where \<open>None\<close>
  is nil, or they panic.
\<close>

datatype 'obj result =
    Result "'obj option" "error option"
  | Panic string

section \<open>The ledger and the collaborators\<close>

text \<open>A point in time, in UTC. \<open>time.Now().UTC()\<close> is an argument \<open>now\<close> of each call.\<close>

type_synonym Time = int

text \<open>\<open>internal.Managed\<close>: the field sets and the last-write time of each manager.\<close>

record Managed =
  Fields :: ManagedFields
  Times :: "string \<rightharpoonup> Time"

datatype ManagedFieldsOperationType =
    ManagedFieldsOperationApply
  | ManagedFieldsOperationUpdate

text \<open>\<open>metav1.ManagedFieldsEntry\<close>, with the three fields that \<open>buildManagerInfo\<close> sets.\<close>

record ManagedFieldsEntry =
  Manager :: string
  Operation :: ManagedFieldsOperationType
  APIVersion :: string

record GroupVersion =
  Group :: string
  Version :: string

record ('obj, 'typed) TypeConverter =
  ObjectToTyped :: "'obj \<Rightarrow> error + 'typed"
  TypedToObject :: "'typed \<Rightarrow> error + 'obj"

record 'obj ObjectConvertor =
  ConvertToVersion :: "'obj \<Rightarrow> GroupVersion \<Rightarrow> error + 'obj"

record 'obj ObjectDefaulter =
  Default :: "'obj \<Rightarrow> 'obj"

text \<open>
  \<open>merge.Updater\<close>: \<open>Update(live, new, version, managers, manager)\<close> and
  \<open>Apply(live, config, version, managers, manager, force)\<close>, each giving a typed
  value and the new field sets, or an error.
\<close>

record 'typed Updater =
  Updater_Update ::
    "'typed \<Rightarrow> 'typed \<Rightarrow> string \<Rightarrow> ManagedFields \<Rightarrow> string \<Rightarrow> error + ('typed \<times> ManagedFields)"
  Updater_Apply ::
    "'typed \<Rightarrow> 'typed \<Rightarrow> string \<Rightarrow> ManagedFields \<Rightarrow> string \<Rightarrow> bool
       \<Rightarrow> error + ('typed \<times> ManagedFields)"

text \<open>The \<open>fieldManager\<close> struct (lines 50-57).\<close>

record ('obj, 'typed) fieldManager =
  typeConverter :: "('obj, 'typed) TypeConverter"
  objectConverter :: "'obj ObjectConvertor"
  objectDefaulter :: "'obj ObjectDefaulter"
  groupVersion :: GroupVersion
  hubVersion :: GroupVersion
  updater :: "'typed Updater"

text \<open>
  The functions of other packages that the file calls. They are parameters of the
  model: \<open>meta.Accessor\<close> (only its error is used), the managed-fields codec of the
  \<open>internal\<close> package, \<open>internal.BuildManagerIdentifier\<close>, \<open>internal.NewConflictError\<close>,
  \<open>yaml.Unmarshal\<close> into an unstructured object, the unstructured object's
  \<open>GetManagedFields\<close> (a slice, \<open>None\<close> when nil) and \<open>GetAPIVersion\<close>, and
  \<open>GroupVersion.String\<close>. Functions that change an object in place return the
  changed object; a converted object is taken to be a copy, so that changing it
  leaves the original as it was. Each of them returns a value or an error, and
  the two maps of a decoded ledger are allocated, so that writing to them does not
  panic.
\<close>

record 'obj externals =
  meta_Accessor :: "'obj \<Rightarrow> error option"
  DecodeObjectManagedFields :: "'obj \<Rightarrow> error + Managed"
  RemoveObjectManagedFields :: "'obj \<Rightarrow> 'obj"
  EncodeObjectManagedFields :: "'obj \<Rightarrow> Managed \<Rightarrow> error + 'obj"
  BuildManagerIdentifier :: "ManagedFieldsEntry \<Rightarrow> error + string"
  NewConflictError :: "Conflict list \<Rightarrow> error"
  yaml_Unmarshal :: "string \<Rightarrow> error + 'obj"
  GetManagedFields :: "'obj \<Rightarrow> ManagedFieldsEntry list option"
  GetAPIVersion :: "'obj \<Rightarrow> string"
  GroupVersion_String :: "GroupVersion \<Rightarrow> string"

section \<open>The field manager\<close>

text \<open>\<open>toVersioned\<close> and \<open>toUnversioned\<close> (lines 267-273).\<close>

definition toVersioned :: "('obj, 'typed) fieldManager \<Rightarrow> 'obj \<Rightarrow> error + 'obj" where
  "toVersioned f obj = ConvertToVersion (objectConverter f) obj (groupVersion f)"

definition toUnversioned :: "('obj, 'typed) fieldManager \<Rightarrow> 'obj \<Rightarrow> error + 'obj" where
  "toUnversioned f obj = ConvertToVersion (objectConverter f) obj (hubVersion f)"

text \<open>\<open>buildManagerInfo\<close> (lines 275-285).\<close>

definition buildManagerInfo ::
  "'obj externals \<Rightarrow> ('obj, 'typed) fieldManager \<Rightarrow> string \<Rightarrow> ManagedFieldsOperationType
     \<Rightarrow> error + string" where
  "buildManagerInfo ext f prefix' operation =
     (let managerInfo = \<lparr>Manager = prefix', Operation = operation,
                         APIVersion = GroupVersion_String ext (groupVersion f)\<rparr>;
          managerInfo = (if Manager managerInfo = [] then managerInfo\<lparr>Manager := ''unknown''\<rparr>
                         else managerInfo)
      in BuildManagerIdentifier ext managerInfo)"

text \<open>
  Lines 112-124 of \<open>Update\<close>: the ledger is decoded from the new object, and from the
  live object when that fails or gives no field set.
\<close>

definition Update_decodeManaged :: "'obj externals \<Rightarrow> 'obj \<Rightarrow> 'obj \<Rightarrow> error + Managed" where
  "Update_decodeManaged ext liveObj newObj =
     (case DecodeObjectManagedFields ext newObj of
        Inl err \<Rightarrow> DecodeObjectManagedFields ext liveObj
      | Inr managed \<Rightarrow>
          if Fields managed = Map.empty then DecodeObjectManagedFields ext liveObj
          else Inr managed)"

text \<open>
  Lines 156-173 of \<open>Update\<close>: when the manager holds an entry after the strip, the
  entry moves to the manager's full identifier. \<open>Inl\<close> is an early return of
  \<open>Update\<close>. Calling \<open>Set()\<close> on a nil versioned set is a nil dereference.
\<close>

definition nilDereference :: string where
  "nilDereference = ''runtime error: invalid memory address or nil pointer dereference''"

definition Update_recordManager ::
  "'obj externals \<Rightarrow> ('obj, 'typed) fieldManager \<Rightarrow> Managed \<Rightarrow> string \<Rightarrow> Time
     \<Rightarrow> 'obj result + Managed" where
  "Update_recordManager ext f managed manager now =
     (case Fields managed manager of
        None \<Rightarrow> Inr managed
      | Some vs \<Rightarrow>
          (let managed = managed\<lparr>Fields := (Fields managed)(manager := None)\<rparr> in
           case buildManagerInfo ext f manager ManagedFieldsOperationUpdate of
             Inl err \<Rightarrow>
               Inl (Result None (Some (Errorf ''failed to build manager identifier: '' err)))
           | Inr manager \<Rightarrow>
               (let managed = managed\<lparr>Times := (Times managed)(manager \<mapsto> now)\<rparr> in
                case Fields managed manager of
                  Some previous \<Rightarrow>
                    (case (vs, previous) of
                       (Some v, Some p) \<Rightarrow>
                         Inr (managed\<lparr>Fields := (Fields managed)(manager \<mapsto>
                                Some (NewVersionedSet (vs_Set v \<union> vs_Set p)
                                        (vs_APIVersion v) (vs_Applied v)))\<rparr>)
                     | _ \<Rightarrow> Inl (Panic nilDereference))
                | None \<Rightarrow> Inr (managed\<lparr>Fields := (Fields managed)(manager \<mapsto> vs)\<rparr>))))"

text \<open>\<open>Update\<close> (lines 104-180).\<close>

definition Update ::
  "'obj externals \<Rightarrow> ('obj, 'typed) fieldManager \<Rightarrow> 'obj \<Rightarrow> 'obj \<Rightarrow> string \<Rightarrow> Time
     \<Rightarrow> 'obj result" where
  "Update ext f liveObj newObj manager now =
    (case meta_Accessor ext newObj of
       Some err \<Rightarrow> Result (Some newObj) None
     | None \<Rightarrow>
    (case Update_decodeManaged ext liveObj newObj of
       Inl err \<Rightarrow> Result None (Some (Errorf ''failed to decode managed fields: '' err))
     | Inr managed \<Rightarrow>
    (case toVersioned f newObj of
       Inl err \<Rightarrow>
         Result None (Some (Errorf ''failed to convert new object to proper version: '' err))
     | Inr newObjVersioned \<Rightarrow>
    (case toVersioned f liveObj of
       Inl err \<Rightarrow>
         Result None (Some (Errorf ''failed to convert live object to proper version: '' err))
     | Inr liveObjVersioned \<Rightarrow>
    (let liveObjVersioned = RemoveObjectManagedFields ext liveObjVersioned;
         newObjVersioned = RemoveObjectManagedFields ext newObjVersioned in
    (case ObjectToTyped (typeConverter f) newObjVersioned of
       Inl err \<Rightarrow> Result (Some newObj) None
     | Inr newObjTyped \<Rightarrow>
    (case ObjectToTyped (typeConverter f) liveObjVersioned of
       Inl err \<Rightarrow> Result (Some newObj) None
     | Inr liveObjTyped \<Rightarrow>
    (let apiVersion = GroupVersion_String ext (groupVersion f) in
    (case Updater_Update (updater f) liveObjTyped newObjTyped apiVersion (Fields managed) manager of
       Inl err \<Rightarrow> Result None (Some (Errorf ''failed to update ManagedFields: '' err))
     | Inr (unused, managedFields) \<Rightarrow>
    (case stripFields managedFields manager of
       Inl msg \<Rightarrow> Panic msg
     | Inr stripped \<Rightarrow>
    (case Update_recordManager ext f (managed\<lparr>Fields := stripped\<rparr>) manager now of
       Inl early \<Rightarrow> early
     | Inr managed \<Rightarrow>
    (case EncodeObjectManagedFields ext newObj managed of
       Inl err \<Rightarrow> Result None (Some (Errorf ''failed to encode managed fields: '' err))
     | Inr newObj \<Rightarrow> Result (Some newObj) None))))))))))))"

text \<open>
  Lines 250-264 of \<open>Apply\<close>: the ledger is encoded into the new object, which is
  converted to the working version, defaulted and converted to the hub version.
\<close>

definition Apply_encode ::
  "'obj externals \<Rightarrow> ('obj, 'typed) fieldManager \<Rightarrow> 'obj \<Rightarrow> Managed \<Rightarrow> 'obj result" where
  "Apply_encode ext f newObj managed =
    (case EncodeObjectManagedFields ext newObj managed of
       Inl err \<Rightarrow> Result None (Some (Errorf ''failed to encode managed fields: '' err))
     | Inr newObj \<Rightarrow>
    (case toVersioned f newObj of
       Inl err \<Rightarrow>
         Result None (Some (Errorf ''failed to convert new object to proper version: '' err))
     | Inr newObjVersioned \<Rightarrow>
    (let newObjVersioned = Default (objectDefaulter f) newObjVersioned in
    (case toUnversioned f newObjVersioned of
       Inl err \<Rightarrow> Result None (Some (Errorf ''failed to convert to unversioned: '' err))
     | Inr newObjUnversioned \<Rightarrow> Result (Some newObjUnversioned) None))))"

text \<open>\<open>Apply\<close> (lines 182-265). The patch is a byte string.\<close>

definition Apply ::
  "'obj externals \<Rightarrow> ('obj, 'typed) fieldManager \<Rightarrow> 'obj \<Rightarrow> string \<Rightarrow> string \<Rightarrow> bool \<Rightarrow> Time
     \<Rightarrow> 'obj result" where
  "Apply ext f liveObj patch fieldManager force now =
    (case meta_Accessor ext liveObj of
       Some err \<Rightarrow> Result None (Some (Errorf ''couldn't get accessor: '' err))
     | None \<Rightarrow>
    (case DecodeObjectManagedFields ext liveObj of
       Inl err \<Rightarrow> Result None (Some (Errorf ''failed to decode managed fields: '' err))
     | Inr managed \<Rightarrow>
    (case yaml_Unmarshal ext patch of
       Inl err \<Rightarrow> Result None (Some (NewBadRequest (''error decoding YAML: '' @ Error err)))
     | Inr patchObj \<Rightarrow>
    if GetManagedFields ext patchObj \<noteq> None then
      Result None (Some (NewBadRequest ''metadata.managedFields must be nil''))
    else if GetAPIVersion ext patchObj \<noteq> GroupVersion_String ext (groupVersion f) then
      Result None (Some (NewBadRequest
        (''Incorrect version specified in apply patch. Specified patch version: ''
           @ GetAPIVersion ext patchObj @ '', expected: ''
           @ GroupVersion_String ext (groupVersion f))))
    else
    (case toVersioned f liveObj of
       Inl err \<Rightarrow>
         Result None (Some (Errorf ''failed to convert live object to proper version: '' err))
     | Inr liveObjVersioned \<Rightarrow>
    (let liveObjVersioned = RemoveObjectManagedFields ext liveObjVersioned in
    (case ObjectToTyped (typeConverter f) patchObj of
       Inl err \<Rightarrow> Result None (Some (Errorf ''failed to create typed patch object: '' err))
     | Inr patchObjTyped \<Rightarrow>
    (case ObjectToTyped (typeConverter f) liveObjVersioned of
       Inl err \<Rightarrow> Result None (Some (Errorf ''failed to create typed live object: '' err))
     | Inr liveObjTyped \<Rightarrow>
    (case buildManagerInfo ext f fieldManager ManagedFieldsOperationApply of
       Inl err \<Rightarrow> Result None (Some (Errorf ''failed to build manager identifier: '' err))
     | Inr manager \<Rightarrow>
    (let apiVersion = GroupVersion_String ext (groupVersion f) in
    (case Updater_Apply (updater f) liveObjTyped patchObjTyped apiVersion (Fields managed)
            manager force of
       Inl err \<Rightarrow>
         (case err of
            Conflicts conflicts msg \<Rightarrow> Result None (Some (NewConflictError ext conflicts))
          | _ \<Rightarrow> Result None (Some err))
     | Inr (newObjTyped, managedFields) \<Rightarrow>
    (case stripFields managedFields manager of
       Inl msg \<Rightarrow> Panic msg
     | Inr stripped \<Rightarrow>
    (let managed = managed\<lparr>Fields := stripped\<rparr>;
         managed = managed\<lparr>Times := (Times managed)(manager \<mapsto> now)\<rparr> in
    (case TypedToObject (typeConverter f) newObjTyped of
       Inl err \<Rightarrow>
         Result None (Some (Errorf ''failed to convert new typed object to object: '' err))
     | Inr newObj \<Rightarrow> Apply_encode ext f newObj managed)))))))))))))"

section \<open>Predicates on results\<close>

text \<open>
  A result is a decode error when it is the pair of no object and the error that
  lines 122 and 192 make: its message starts with the text of their format.
\<close>

definition isDecodeError :: "'obj result \<Rightarrow> bool" where
  "isDecodeError r =
     (case r of
        Result None (Some (ErrorString msg)) \<Rightarrow> prefix ''failed to decode managed fields: '' msg
      | _ \<Rightarrow> False)"

text \<open>An error is of the bad-request class when it is a status error with that reason.\<close>

definition isBadRequest :: "error \<Rightarrow> bool" where
  "isBadRequest err = (case err of StatusError StatusReasonBadRequest msg \<Rightarrow> True | _ \<Rightarrow> False)"

definition returnsBadRequest :: "'obj result \<Rightarrow> bool" where
  "returnsBadRequest r = (case r of Result None (Some err) \<Rightarrow> isBadRequest err | _ \<Rightarrow> False)"

section \<open>A concrete field manager\<close>

text \<open>
  Collaborators over objects that are named by strings, on which the operations can
  be run. The object \<open>''event''\<close> has no metadata accessor, \<open>''corrupt''\<close> has a ledger
  that does not decode, \<open>''unconvertible''\<close> has no conversion, and \<open>''live''\<close> carries a
  ledger with one entry from an earlier update by \<open>kubectl\<close>.
\<close>

definition demo_ledger :: Managed where
  "demo_ledger =
     \<lparr>Fields = [''kubectl/Update/v1'' \<mapsto>
                  Some \<lparr>vs_Set = {[FieldName ''spec'', FieldName ''image'']},
                        vs_APIVersion = ''v1'', vs_Applied = False\<rparr>],
      Times = [''kubectl/Update/v1'' \<mapsto> 100]\<rparr>"

definition demo_ext :: "string externals" where
  "demo_ext =
     \<lparr>meta_Accessor = (\<lambda>obj. if obj = ''event''
          then Some (ErrorString ''object does not implement the Object interfaces'')
          else None),
      DecodeObjectManagedFields = (\<lambda>obj.
          if obj = ''corrupt'' then Inl (ErrorString ''invalid managedFields'')
          else if obj = ''live'' then Inr demo_ledger
          else Inr \<lparr>Fields = Map.empty, Times = Map.empty\<rparr>),
      RemoveObjectManagedFields = (\<lambda>obj. obj),
      EncodeObjectManagedFields = (\<lambda>obj managed. Inr (obj @ ''+managedFields'')),
      BuildManagerIdentifier = (\<lambda>info. Inr (Manager info @
          (case Operation info of
             ManagedFieldsOperationApply \<Rightarrow> ''/Apply/''
           | ManagedFieldsOperationUpdate \<Rightarrow> ''/Update/'') @ APIVersion info)),
      NewConflictError = (\<lambda>conflicts.
          StatusError StatusReasonConflict ''Apply failed with conflicts''),
      yaml_Unmarshal = (\<lambda>patch. if patch = ''{''
          then Inl (ErrorString ''yaml: did not find expected node content'')
          else Inr patch),
      GetManagedFields = (\<lambda>obj. if obj = ''metadata: {managedFields: []}''
          then Some [] else None),
      GetAPIVersion = (\<lambda>obj. if obj = ''apiVersion: v2'' then ''v2'' else ''v1''),
      GroupVersion_String = (\<lambda>gv. if Group gv = [] then Version gv
          else Group gv @ ''/'' @ Version gv)\<rparr>"

definition demo_fm :: "(string, string) fieldManager" where
  "demo_fm =
     \<lparr>typeConverter = \<lparr>ObjectToTyped = (\<lambda>obj. Inr obj), TypedToObject = (\<lambda>typed. Inr typed)\<rparr>,
      objectConverter = \<lparr>ConvertToVersion = (\<lambda>obj gv.
          if obj = ''unconvertible'' then Inl (ErrorString ''no kind is registered'')
          else Inr obj)\<rparr>,
      objectDefaulter = \<lparr>Default = (\<lambda>obj. obj)\<rparr>,
      groupVersion = \<lparr>Group = [], Version = ''v1''\<rparr>,
      hubVersion = \<lparr>Group = [], Version = ''__internal''\<rparr>,
      updater =
        \<lparr>Updater_Update = (\<lambda>live new version managers manager.
            Inr (new, managers(manager \<mapsto> Some (NewVersionedSet
                   {[FieldName ''metadata'', FieldName ''name''],
                    [FieldName ''spec'', FieldName ''replicas'']} version False)))),
         Updater_Apply = (\<lambda>live config version managers manager force.
            if config = ''conflicting'' \<and> \<not> force
            then Inl (Conflicts [Conflict ''kubectl/Update/v1''
                                   [FieldName ''spec'', FieldName ''image'']]
                        ''conflict with kubectl: .spec.image'')
            else if config = ''malformed'' then Inl (ErrorString ''schema error'')
            else Inr (config, managers(manager \<mapsto> Some (NewVersionedSet
                   (if config = ''name-only''
                    then {[FieldName ''metadata'', FieldName ''name'']}
                    else {[FieldName ''metadata'', FieldName ''name''],
                          [FieldName ''spec'', FieldName ''replicas'']})
                   version True))))\<rparr>\<rparr>"

section \<open>Properties of the field stripper\<close>

lemma stripSet_paths:
  "stripSet = {
     [FieldName ''apiVersion''],
     [FieldName ''kind''],
     [FieldName ''metadata''],
     [FieldName ''metadata'', FieldName ''name''],
     [FieldName ''metadata'', FieldName ''namespace''],
     [FieldName ''metadata'', FieldName ''creationTimestamp''],
     [FieldName ''metadata'', FieldName ''selfLink''],
     [FieldName ''metadata'', FieldName ''uid''],
     [FieldName ''metadata'', FieldName ''clusterName''],
     [FieldName ''metadata'', FieldName ''generation''],
     [FieldName ''metadata'', FieldName ''managedFields''],
     [FieldName ''metadata'', FieldName ''resourceVersion'']}"
  by (simp add: stripSet_def MakePathOrDie_def)

lemma stripFields_absent:
  "managed manager = None \<Longrightarrow> stripFields managed manager = Inr managed"
  by (simp add: stripFields_def)

lemma stripFields_nil:
  "managed manager = Some None \<Longrightarrow>
   stripFields managed manager =
     Inl (''Found unexpected nil manager which should never happen: '' @ manager)"
  by (simp add: stripFields_def)

lemma stripFields_present:
  "managed manager = Some (Some vs) \<Longrightarrow>
   stripFields managed manager =
     Inr (if vs_Set vs - stripSet = {} then managed(manager := None)
          else managed(manager \<mapsto>
                 Some (NewVersionedSet (vs_Set vs - stripSet)
                         (vs_APIVersion vs) (vs_Applied vs))))"
  by (simp add: stripFields_def Let_def)


text \<open>
  Claim C6. For a ledger in which the identity is present with a non-nil set,
  \<open>stripFields\<close> takes the difference of that set with the fixed bookkeeping set
  (apiVersion, kind, metadata and the nine listed metadata children). When the
  difference is empty the identity's entry is deleted; otherwise the entry becomes a
  new versioned set with the reduced set, the original API version and the
  original applied flag.
\<close>

theorem C6_stripFields_difference:
  assumes "managed manager = Some (Some vs)"
  shows "stripSet = {
           [FieldName ''apiVersion''], [FieldName ''kind''], [FieldName ''metadata''],
           [FieldName ''metadata'', FieldName ''name''],
           [FieldName ''metadata'', FieldName ''namespace''],
           [FieldName ''metadata'', FieldName ''creationTimestamp''],
           [FieldName ''metadata'', FieldName ''selfLink''],
           [FieldName ''metadata'', FieldName ''uid''],
           [FieldName ''metadata'', FieldName ''clusterName''],
           [FieldName ''metadata'', FieldName ''generation''],
           [FieldName ''metadata'', FieldName ''managedFields''],
           [FieldName ''metadata'', FieldName ''resourceVersion'']}
         \<and> (vs_Set vs - stripSet = {} \<longrightarrow>
              stripFields managed manager = Inr (managed(manager := None)))
         \<and> (vs_Set vs - stripSet \<noteq> {} \<longrightarrow>
              stripFields managed manager =
                Inr (managed(manager \<mapsto>
                  Some \<lparr>vs_Set = vs_Set vs - stripSet,
                        vs_APIVersion = vs_APIVersion vs,
                        vs_Applied = vs_Applied vs\<rparr>)))"
  using assms
  by (simp add: stripFields_present stripSet_paths [symmetric] NewVersionedSet_def)

theorem C6_stripFields_difference_witness:
  "stripFields
     [''kubectl'' \<mapsto> Some \<lparr>vs_Set = {[FieldName ''metadata'', FieldName ''name''],
                                    [FieldName ''spec'', FieldName ''replicas'']},
                          vs_APIVersion = ''apps/v1'', vs_Applied = True\<rparr>,
      ''scaler'' \<mapsto> Some \<lparr>vs_Set = {[FieldName ''kind''], [FieldName ''metadata'']},
                         vs_APIVersion = ''apps/v1'', vs_Applied = False\<rparr>]
     ''kubectl''
   = Inr [''kubectl'' \<mapsto> Some \<lparr>vs_Set = {[FieldName ''spec'', FieldName ''replicas'']},
                                 vs_APIVersion = ''apps/v1'', vs_Applied = True\<rparr>,
          ''scaler'' \<mapsto> Some \<lparr>vs_Set = {[FieldName ''kind''], [FieldName ''metadata'']},
                             vs_APIVersion = ''apps/v1'', vs_Applied = False\<rparr>]
   \<and> stripFields
       [''scaler'' \<mapsto> Some \<lparr>vs_Set = {[FieldName ''kind''], [FieldName ''metadata'']},
                           vs_APIVersion = ''apps/v1'', vs_Applied = False\<rparr>]
       ''scaler''
     = Inr Map.empty"
proof -
  let ?k = "\<lparr>vs_Set = {[FieldName ''metadata'', FieldName ''name''],
                       [FieldName ''spec'', FieldName ''replicas'']},
             vs_APIVersion = ''apps/v1'', vs_Applied = True\<rparr>"
  let ?s = "\<lparr>vs_Set = {[FieldName ''kind''], [FieldName ''metadata'']},
             vs_APIVersion = ''apps/v1'', vs_Applied = False\<rparr>"
  have k: "vs_Set ?k - stripSet = {[FieldName ''spec'', FieldName ''replicas'']}"
    by (auto simp: stripSet_paths)
  have s: "vs_Set ?s - stripSet = {}"
    by (auto simp: stripSet_paths)
  have a: "[''kubectl'' \<mapsto> Some ?k, ''scaler'' \<mapsto> Some ?s] ''kubectl'' = Some (Some ?k)"
    by simp
  have b: "[''scaler'' \<mapsto> Some ?s] ''scaler'' = Some (Some ?s)"
    by simp
  have m: "[''kubectl'' \<mapsto> Some ?k, ''scaler'' \<mapsto> Some ?s]
             (''kubectl'' \<mapsto> Some \<lparr>vs_Set = {[FieldName ''spec'', FieldName ''replicas'']},
                                     vs_APIVersion = ''apps/v1'', vs_Applied = True\<rparr>)
           = [''kubectl'' \<mapsto> Some \<lparr>vs_Set = {[FieldName ''spec'', FieldName ''replicas'']},
                                     vs_APIVersion = ''apps/v1'', vs_Applied = True\<rparr>,
              ''scaler'' \<mapsto> Some ?s]"
    by (rule ext) simp
  have ne: "vs_Set ?k - stripSet \<noteq> {}"
    unfolding k by simp
  from C6_stripFields_difference
         [of "[''kubectl'' \<mapsto> Some ?k, ''scaler'' \<mapsto> Some ?s]" "''kubectl''" ?k, OF a] ne
  have "stripFields [''kubectl'' \<mapsto> Some ?k, ''scaler'' \<mapsto> Some ?s] ''kubectl''
          = Inr ([''kubectl'' \<mapsto> Some ?k, ''scaler'' \<mapsto> Some ?s]
                   (''kubectl'' \<mapsto> Some \<lparr>vs_Set = vs_Set ?k - stripSet,
                        vs_APIVersion = vs_APIVersion ?k, vs_Applied = vs_Applied ?k\<rparr>))"
    by blast
  then have first: "stripFields [''kubectl'' \<mapsto> Some ?k, ''scaler'' \<mapsto> Some ?s] ''kubectl''
          = Inr [''kubectl'' \<mapsto> Some \<lparr>vs_Set = {[FieldName ''spec'', FieldName ''replicas'']},
                                     vs_APIVersion = ''apps/v1'', vs_Applied = True\<rparr>,
                 ''scaler'' \<mapsto> Some ?s]"
    unfolding k m [symmetric] by simp
  from C6_stripFields_difference [of "[''scaler'' \<mapsto> Some ?s]" "''scaler''" ?s, OF b] s
  have "stripFields [''scaler'' \<mapsto> Some ?s] ''scaler''
          = Inr ([''scaler'' \<mapsto> Some ?s](''scaler'' := None))"
    by blast
  then have second: "stripFields [''scaler'' \<mapsto> Some ?s] ''scaler'' = Inr Map.empty"
    by simp
  from first second show ?thesis by blast
qed

text \<open>
  Claim C8. When the identity's key is present and holds the nil set,
  \<open>stripFields\<close> panics: it returns no ledger and no recoverable error, and nothing
  is repaired. That is the only way it panics, so the branch cannot be reached from
  a ledger in which every present key holds a non-nil set.
\<close>

theorem C8_stripFields_panics_on_nil:
  "(managed manager = Some None \<longrightarrow>
      stripFields managed manager =
        Inl (''Found unexpected nil manager which should never happen: '' @ manager))
   \<and> ((\<exists>msg. stripFields managed manager = Inl msg) \<longleftrightarrow> managed manager = Some None)
   \<and> ((\<forall>k. managed k \<noteq> Some None) \<longrightarrow>
        (\<exists>managed'. stripFields managed manager = Inr managed'))"
proof -
  have iff: "(\<exists>msg. stripFields managed manager = Inl msg) \<longleftrightarrow> managed manager = Some None"
    by (auto simp: stripFields_def Let_def split: option.splits if_splits)
  have "\<exists>managed'. stripFields managed manager = Inr managed'"
    if "\<forall>k. managed k \<noteq> Some None"
  proof (cases "stripFields managed manager")
    case (Inl msg)
    with iff have "managed manager = Some None" by blast
    with that show ?thesis by blast
  next
    case (Inr m)
    then show ?thesis by blast
  qed
  with iff show ?thesis by (simp add: stripFields_nil)
qed

theorem C8_stripFields_panics_on_nil_witness:
  "stripFields [''kubectl'' \<mapsto> None] ''kubectl''
     = Inl ''Found unexpected nil manager which should never happen: kubectl''
   \<and> (\<exists>managed'. stripFields
         [''kubectl'' \<mapsto> Some \<lparr>vs_Set = {[FieldName ''spec'']},
                              vs_APIVersion = ''v1'', vs_Applied = False\<rparr>]
         ''kubectl'' = Inr managed')"
proof -
  let ?ok = "[''kubectl'' \<mapsto> Some \<lparr>vs_Set = {[FieldName ''spec'']},
                                  vs_APIVersion = ''v1'', vs_Applied = False\<rparr>]"
  have inv: "\<forall>k. ?ok k \<noteq> Some None" by simp
  have nil: "[''kubectl'' \<mapsto> (None :: VersionedSet option)] ''kubectl'' = Some None" by simp
  from C8_stripFields_panics_on_nil [of "[''kubectl'' \<mapsto> None]" "''kubectl''"] nil
  have "stripFields [''kubectl'' \<mapsto> None] ''kubectl''
          = Inl ''Found unexpected nil manager which should never happen: kubectl''"
    by simp
  moreover from C8_stripFields_panics_on_nil [of ?ok "''kubectl''"] inv
  have "\<exists>managed'. stripFields ?ok ''kubectl'' = Inr managed'" by blast
  ultimately show ?thesis by blast
qed

text \<open>
  Claim C9. A successful \<open>stripFields\<close> changes at most the entry of the given
  identity: every other identity has the same entry after the call as before it.
  The function receives the field sets only; the assignment
  \<open>managed.Fields = f.stripFields(...)\<close> at its call sites leaves the times of the
  ledger as they were.
\<close>

theorem C9_stripFields_frame:
  assumes "stripFields managed manager = Inr managed'"
  shows "(\<forall>other. other \<noteq> manager \<longrightarrow> managed' other = managed other)
         \<and> Times (ledger\<lparr>Fields := managed'\<rparr>) = Times ledger"
  using assms
  by (auto simp: stripFields_def Let_def split: option.splits if_splits)

theorem C9_stripFields_frame_witness:
  "\<exists>managed'.
     stripFields
       [''kubectl'' \<mapsto> Some \<lparr>vs_Set = {[FieldName ''metadata'', FieldName ''name''],
                                      [FieldName ''spec'', FieldName ''replicas'']},
                            vs_APIVersion = ''v1'', vs_Applied = True\<rparr>,
        ''scaler'' \<mapsto> Some \<lparr>vs_Set = {[FieldName ''kind'']},
                           vs_APIVersion = ''v1'', vs_Applied = False\<rparr>]
       ''kubectl'' = Inr managed'
     \<and> managed' ''scaler'' = Some (Some \<lparr>vs_Set = {[FieldName ''kind'']},
                                         vs_APIVersion = ''v1'', vs_Applied = False\<rparr>)
     \<and> Times (demo_ledger\<lparr>Fields := managed'\<rparr>) = Times demo_ledger"
proof -
  let ?k = "\<lparr>vs_Set = {[FieldName ''metadata'', FieldName ''name''],
                       [FieldName ''spec'', FieldName ''replicas'']},
             vs_APIVersion = ''v1'', vs_Applied = True\<rparr>"
  let ?s = "\<lparr>vs_Set = {[FieldName ''kind'']}, vs_APIVersion = ''v1'', vs_Applied = False\<rparr>"
  let ?m = "[''kubectl'' \<mapsto> Some ?k, ''scaler'' \<mapsto> Some ?s]"
  have "?m ''kubectl'' = Some (Some ?k)" by simp
  from stripFields_present [of ?m "''kubectl''" ?k, OF this]
  obtain managed' where r: "stripFields ?m ''kubectl'' = Inr managed'" by blast
  from C9_stripFields_frame [OF r, of demo_ledger]
  have "managed' ''scaler'' = ?m ''scaler''"
    and "Times (demo_ledger\<lparr>Fields := managed'\<rparr>) = Times demo_ledger"
    by simp_all
  with r show ?thesis by simp
qed

section \<open>Evaluating the concrete field manager\<close>

lemma demo_fm_simps:
  "toVersioned demo_fm obj =
     (if obj = ''unconvertible'' then Inl (ErrorString ''no kind is registered'') else Inr obj)"
  "toUnversioned demo_fm obj =
     (if obj = ''unconvertible'' then Inl (ErrorString ''no kind is registered'') else Inr obj)"
  "ObjectToTyped (typeConverter demo_fm) obj = Inr obj"
  "TypedToObject (typeConverter demo_fm) obj = Inr obj"
  "Default (objectDefaulter demo_fm) obj = obj"
  "GroupVersion_String demo_ext (groupVersion demo_fm) = ''v1''"
  by (simp_all add: toVersioned_def toUnversioned_def demo_fm_def demo_ext_def)

lemma demo_ext_simps:
  "meta_Accessor demo_ext obj =
     (if obj = ''event''
      then Some (ErrorString ''object does not implement the Object interfaces'') else None)"
  "DecodeObjectManagedFields demo_ext obj =
     (if obj = ''corrupt'' then Inl (ErrorString ''invalid managedFields'')
      else if obj = ''live'' then Inr demo_ledger
      else Inr \<lparr>Fields = Map.empty, Times = Map.empty\<rparr>)"
  "RemoveObjectManagedFields demo_ext obj = obj"
  "EncodeObjectManagedFields demo_ext obj managed = Inr (obj @ ''+managedFields'')"
  "NewConflictError demo_ext conflicts
     = StatusError StatusReasonConflict ''Apply failed with conflicts''"
  "yaml_Unmarshal demo_ext patch =
     (if patch = ''{'' then Inl (ErrorString ''yaml: did not find expected node content'')
      else Inr patch)"
  "GetManagedFields demo_ext obj =
     (if obj = ''metadata: {managedFields: []}'' then Some [] else None)"
  "GetAPIVersion demo_ext obj = (if obj = ''apiVersion: v2'' then ''v2'' else ''v1'')"
  by (simp_all add: demo_ext_def)


lemma demo_buildManagerInfo:
  "buildManagerInfo demo_ext demo_fm ''kubectl'' ManagedFieldsOperationUpdate
     = Inr ''kubectl/Update/v1''"
  "buildManagerInfo demo_ext demo_fm ''kubectl'' ManagedFieldsOperationApply
     = Inr ''kubectl/Apply/v1''"
  by (simp_all add: buildManagerInfo_def demo_ext_def demo_fm_def)


lemma demo_Updater_Apply:
  "Updater_Apply (updater demo_fm) live config version managers manager force =
     (if config = ''conflicting'' \<and> \<not> force
      then Inl (Conflicts [Conflict ''kubectl/Update/v1''
                             [FieldName ''spec'', FieldName ''image'']]
                  ''conflict with kubectl: .spec.image'')
      else if config = ''malformed'' then Inl (ErrorString ''schema error'')
      else Inr (config, managers(manager \<mapsto> Some (NewVersionedSet
             (if config = ''name-only''
              then {[FieldName ''metadata'', FieldName ''name'']}
              else {[FieldName ''metadata'', FieldName ''name''],
                    [FieldName ''spec'', FieldName ''replicas'']})
             version True))))"
  by (simp add: demo_fm_def)

lemma demo_decode_fallback:
  "Update_decodeManaged demo_ext ''live'' ''unconvertible'' = Inr demo_ledger"
  "Update_decodeManaged demo_ext ''unconvertible'' ''new'' = Inr \<lparr>Fields = Map.empty, Times = Map.empty\<rparr>"
  by (simp_all add: Update_decodeManaged_def demo_ext_def)

lemma demo_Apply_prefix:
  "meta_Accessor demo_ext ''live'' = None"
  "DecodeObjectManagedFields demo_ext ''live'' = Inr demo_ledger"
  "toVersioned demo_fm ''live'' = Inr ''live''"
  "ObjectToTyped (typeConverter demo_fm) (RemoveObjectManagedFields demo_ext ''live'')
     = Inr ''live''"
  by (simp_all add: demo_ext_simps demo_fm_simps)

section \<open>Properties of Update\<close>

text \<open>
  Claim C7. When the incoming object has no metadata accessor, \<open>Update\<close> returns that
  object as it is and no error, whatever the live object, the manager name and the
  ledger are.
\<close>

theorem C7_Update_without_accessor:
  assumes "meta_Accessor ext newObj = Some err"
  shows "Update ext f liveObj newObj manager now = Result (Some newObj) None"
  using assms by (simp add: Update_def)

theorem C7_Update_without_accessor_witness:
  "Update demo_ext demo_fm ''live'' ''event'' ''kubectl'' 200 = Result (Some ''event'') None"
proof -
  have "meta_Accessor demo_ext ''event''
          = Some (ErrorString ''object does not implement the Object interfaces'')"
    by (simp add: demo_ext_def)
  then show ?thesis by (rule C7_Update_without_accessor)
qed

subsection \<open>Decoding the ledger\<close>

lemma isDecodeError_simps:
  "isDecodeError (Result (Some obj) e) = False"
  "isDecodeError (Result None None) = False"
  "isDecodeError (Panic msg) = False"
  "isDecodeError (Result None (Some (Errorf format err)))
     = prefix ''failed to decode managed fields: '' (format @ Error err)"
  by (simp_all add: isDecodeError_def Errorf_def)

lemma Update_recordManager_early:
  assumes "Update_recordManager ext f managed manager now = Inl early"
  shows "early = Panic nilDereference \<or>
         (\<exists>err. early = Result None (Some (Errorf ''failed to build manager identifier: '' err)))"
  using assms
  by (auto simp: Update_recordManager_def Let_def split: option.splits sum.splits)

lemma Update_recordManager_early_not_decode:
  assumes "Update_recordManager ext f managed manager now = Inl early"
  shows "\<not> isDecodeError early"
  using Update_recordManager_early [OF assms]
  by (auto simp: isDecodeError_simps)

lemma Update_decoded_not_decode_error:
  assumes acc: "meta_Accessor ext newObj = None"
    and dec: "Update_decodeManaged ext liveObj newObj = Inr managed"
  shows "\<not> isDecodeError (Update ext f liveObj newObj manager now)"
  using acc dec
  by (auto simp: Update_def Let_def isDecodeError_simps
           split: sum.splits prod.splits
           dest: Update_recordManager_early_not_decode)

lemma Update_decodeManaged_cases:
  "Update_decodeManaged ext liveObj newObj =
     (if \<exists>managed. DecodeObjectManagedFields ext newObj = Inr managed \<and> Fields managed \<noteq> Map.empty
      then DecodeObjectManagedFields ext newObj
      else DecodeObjectManagedFields ext liveObj)"
  by (auto simp: Update_decodeManaged_def split: sum.splits)

text \<open>
  Claim C5. \<open>Update\<close> decodes the ledger from the incoming object first and uses it
  when it has a field set. When that decode fails or gives no field set, the ledger
  is the result of decoding the live object. \<open>Update\<close> returns the decode error
  exactly when the accessor is there, the fallback is taken and the decode of the
  live object fails; a failed decode of the incoming object alone is never
  returned.
\<close>

theorem C5_Update_decode_fallback:
  "(\<forall>managed. DecodeObjectManagedFields ext newObj = Inr managed \<and> Fields managed \<noteq> Map.empty
       \<longrightarrow> Update_decodeManaged ext liveObj newObj = Inr managed)
   \<and> ((\<forall>managed. DecodeObjectManagedFields ext newObj = Inr managed \<longrightarrow> Fields managed = Map.empty)
       \<longrightarrow> Update_decodeManaged ext liveObj newObj = DecodeObjectManagedFields ext liveObj)
   \<and> (isDecodeError (Update ext f liveObj newObj manager now) \<longleftrightarrow>
        meta_Accessor ext newObj = None
        \<and> (\<forall>managed. DecodeObjectManagedFields ext newObj = Inr managed
              \<longrightarrow> Fields managed = Map.empty)
        \<and> (\<exists>err. DecodeObjectManagedFields ext liveObj = Inl err))
   \<and> (\<forall>err. meta_Accessor ext newObj = None
        \<and> (\<forall>managed. DecodeObjectManagedFields ext newObj = Inr managed
              \<longrightarrow> Fields managed = Map.empty)
        \<and> DecodeObjectManagedFields ext liveObj = Inl err
        \<longrightarrow> Update ext f liveObj newObj manager now =
              Result None (Some (Errorf ''failed to decode managed fields: '' err)))"
proof -
  let ?fallback = "\<forall>managed. DecodeObjectManagedFields ext newObj = Inr managed
                     \<longrightarrow> Fields managed = Map.empty"
  have used: "Update_decodeManaged ext liveObj newObj = Inr managed"
    if "DecodeObjectManagedFields ext newObj = Inr managed" "Fields managed \<noteq> Map.empty"
    for managed
    using that by (simp add: Update_decodeManaged_def)
  have fb: "Update_decodeManaged ext liveObj newObj = DecodeObjectManagedFields ext liveObj"
    if "?fallback"
    using that by (auto simp: Update_decodeManaged_def split: sum.splits)
  have hard: "Update ext f liveObj newObj manager now =
                Result None (Some (Errorf ''failed to decode managed fields: '' err))"
    if "meta_Accessor ext newObj = None" "?fallback"
       "DecodeObjectManagedFields ext liveObj = Inl err" for err
    using that fb by (simp add: Update_def)
  have only: "meta_Accessor ext newObj = None \<and> ?fallback
                \<and> (\<exists>err. DecodeObjectManagedFields ext liveObj = Inl err)"
    if d: "isDecodeError (Update ext f liveObj newObj manager now)"
  proof -
    have acc: "meta_Accessor ext newObj = None"
    proof (cases "meta_Accessor ext newObj")
      case None then show ?thesis .
    next
      case (Some e)
      with d show ?thesis by (simp add: Update_def isDecodeError_simps)
    qed
    obtain err where e: "Update_decodeManaged ext liveObj newObj = Inl err"
    proof (cases "Update_decodeManaged ext liveObj newObj")
      case (Inl err) with that show ?thesis .
    next
      case (Inr managed)
      from Update_decoded_not_decode_error [OF acc Inr] d show ?thesis by blast
    qed
    have f: "?fallback"
    proof (intro allI impI)
      fix managed assume m: "DecodeObjectManagedFields ext newObj = Inr managed"
      show "Fields managed = Map.empty"
      proof (rule ccontr)
        assume "Fields managed \<noteq> Map.empty"
        with m used e show False by simp
      qed
    qed
    with fb e have "DecodeObjectManagedFields ext liveObj = Inl err" by simp
    with acc f show ?thesis by blast
  qed
  have conv: "isDecodeError (Update ext f liveObj newObj manager now)"
    if "meta_Accessor ext newObj = None" "?fallback"
       "DecodeObjectManagedFields ext liveObj = Inl err" for err
    using hard [OF that] by (simp add: isDecodeError_simps)
  from used fb hard only conv show ?thesis by blast
qed

theorem C5_Update_decode_fallback_witness:
  "Update_decodeManaged demo_ext ''corrupt'' ''live'' = Inr demo_ledger
   \<and> Update_decodeManaged demo_ext ''live'' ''new'' = Inr demo_ledger
   \<and> \<not> isDecodeError (Update demo_ext demo_fm ''live'' ''corrupt'' ''kubectl'' 200)
   \<and> Update demo_ext demo_fm ''corrupt'' ''new'' ''kubectl'' 200
       = Result None (Some (ErrorString
           ''failed to decode managed fields: invalid managedFields''))"
proof -
  have ne: "Fields demo_ledger \<noteq> Map.empty"
    by (simp add: demo_ledger_def)
  have live: "DecodeObjectManagedFields demo_ext ''live'' = Inr demo_ledger"
    and new: "DecodeObjectManagedFields demo_ext ''new''
                = Inr \<lparr>Fields = Map.empty, Times = Map.empty\<rparr>"
    and corrupt: "DecodeObjectManagedFields demo_ext ''corrupt''
                = Inl (ErrorString ''invalid managedFields'')"
    and acc: "meta_Accessor demo_ext ''new'' = None"
    by (simp_all add: demo_ext_simps)
  note c1 = C5_Update_decode_fallback [where ext = demo_ext and f = demo_fm
      and newObj = "''live''" and liveObj = "''corrupt''" and manager = "''kubectl''"
      and now = 200]
  note c2 = C5_Update_decode_fallback [where ext = demo_ext and f = demo_fm
      and newObj = "''new''" and liveObj = "''live''" and manager = "''kubectl''"
      and now = 200]
  note c3 = C5_Update_decode_fallback [where ext = demo_ext and f = demo_fm
      and newObj = "''corrupt''" and liveObj = "''live''" and manager = "''kubectl''"
      and now = 200]
  note c4 = C5_Update_decode_fallback [where ext = demo_ext and f = demo_fm
      and newObj = "''new''" and liveObj = "''corrupt''" and manager = "''kubectl''"
      and now = 200]
  from c1 live ne have a: "Update_decodeManaged demo_ext ''corrupt'' ''live'' = Inr demo_ledger"
    by blast
  from c2 new live have b: "Update_decodeManaged demo_ext ''live'' ''new'' = Inr demo_ledger"
    by simp
  from c3 live have c: "\<not> isDecodeError (Update demo_ext demo_fm ''live'' ''corrupt'' ''kubectl'' 200)"
    by simp
  from c4 acc new corrupt
  have "Update demo_ext demo_fm ''corrupt'' ''new'' ''kubectl'' 200
          = Result None (Some (Errorf ''failed to decode managed fields: ''
                                 (ErrorString ''invalid managedFields'')))"
    by simp
  then have d: "Update demo_ext demo_fm ''corrupt'' ''new'' ''kubectl'' 200
       = Result None (Some (ErrorString
           ''failed to decode managed fields: invalid managedFields''))"
    by (simp add: Errorf_def)
  from a b c d show ?thesis by blast
qed

subsection \<open>Conversion to the working version\<close>

text \<open>
  Claim C1, as the code has it. Once the accessor is there and the ledger is
  decoded, a failure to convert the incoming object, or the live object, to the
  working version makes \<open>Update\<close> return no object and the error
  \<open>failed to convert new object to proper version\<close>, respectively
  \<open>failed to convert live object to proper version\<close>, followed by the cause.
\<close>

theorem C1_Update_conversion_failure:
  assumes acc: "meta_Accessor ext newObj = None"
    and dec: "Update_decodeManaged ext liveObj newObj = Inr managed"
  shows "(toVersioned f newObj = Inl err \<longrightarrow>
            Update ext f liveObj newObj manager now =
              Result None
                (Some (Errorf ''failed to convert new object to proper version: '' err)))
         \<and> (toVersioned f newObj = Inr newObjVersioned \<and> toVersioned f liveObj = Inl err \<longrightarrow>
              Update ext f liveObj newObj manager now =
                Result None
                  (Some (Errorf ''failed to convert live object to proper version: '' err)))"
  using acc dec by (simp add: Update_def)

theorem C1_Update_conversion_failure_witness:
  "Update demo_ext demo_fm ''live'' ''unconvertible'' ''kubectl'' 200
     = Result None (Some (ErrorString
         ''failed to convert new object to proper version: no kind is registered''))
   \<and> Update demo_ext demo_fm ''unconvertible'' ''new'' ''kubectl'' 200
     = Result None (Some (ErrorString
         ''failed to convert live object to proper version: no kind is registered''))"
proof -
  have acc: "meta_Accessor demo_ext ''unconvertible'' = None" "meta_Accessor demo_ext ''new'' = None"
    by (simp_all add: demo_ext_def)
  from C1_Update_conversion_failure [OF acc(1) demo_decode_fallback(1), where f = demo_fm
                     and err = "ErrorString ''no kind is registered''" and manager = "''kubectl''"
                     and now = 200]
       C1_Update_conversion_failure [OF acc(2) demo_decode_fallback(2), where f = demo_fm
                     and err = "ErrorString ''no kind is registered''" and manager = "''kubectl''"
                     and now = 200 and newObjVersioned = "''new''"]
  show ?thesis by (simp add: demo_fm_simps Errorf_def)
qed

text \<open>
  The incoming object \<open>''unconvertible''\<close> has an accessor and the ledger decodes from
  the live object, but the object cannot be converted: \<open>Update\<close> returns the error
  and not the incoming object.
\<close>

theorem C1_counterexample:
  "toVersioned demo_fm ''unconvertible'' = Inl (ErrorString ''no kind is registered'')
   \<and> Update demo_ext demo_fm ''live'' ''unconvertible'' ''kubectl'' 200
       = Result None (Some (ErrorString
           ''failed to convert new object to proper version: no kind is registered''))
   \<and> Update demo_ext demo_fm ''live'' ''unconvertible'' ''kubectl'' 200
       \<noteq> Result (Some ''unconvertible'') None"
proof -
  have acc: "meta_Accessor demo_ext ''unconvertible'' = None"
    by (simp add: demo_ext_def)
  show ?thesis
    by (simp add: Update_def acc demo_decode_fallback demo_fm_simps Errorf_def)
qed

subsection \<open>Recording the manager\<close>

lemma Managed_updated:
  "(managed :: Managed)\<lparr>Fields := fs, Times := ts\<rparr> = \<lparr>Fields = fs, Times = ts\<rparr>"
  by (cases managed) simp



section \<open>Properties of Apply\<close>

subsection \<open>Validation of the patch\<close>

lemma returnsBadRequest_simps:
  "returnsBadRequest (Result (Some obj) e) = False"
  "returnsBadRequest (Result None None) = False"
  "returnsBadRequest (Panic msg) = False"
  "returnsBadRequest (Result None (Some err)) = isBadRequest err"
  "isBadRequest (Errorf format err) = False"
  "isBadRequest (NewBadRequest reason) = True"
  by (simp_all add: returnsBadRequest_def isBadRequest_def Errorf_def NewBadRequest_def)

lemma Apply_encode_not_bad_request:
  "\<not> returnsBadRequest (Apply_encode ext f newObj managed)"
  by (simp add: Apply_encode_def Let_def returnsBadRequest_simps split: sum.splits)

lemma Apply_validated_not_bad_request:
  assumes acc: "meta_Accessor ext liveObj = None"
    and dec: "DecodeObjectManagedFields ext liveObj = Inr managed"
    and parse: "yaml_Unmarshal ext patch = Inr patchObj"
    and nomf: "GetManagedFields ext patchObj = None"
    and ver: "GetAPIVersion ext patchObj = GroupVersion_String ext (groupVersion f)"
    and merge: "\<And>live config version managers manager force err.
        Updater_Apply (updater f) live config version managers manager force = Inl err
        \<Longrightarrow> \<not> isBadRequest err"
    and conflict: "\<And>conflicts. \<not> isBadRequest (NewConflictError ext conflicts)"
  shows "\<not> returnsBadRequest (Apply ext f liveObj patch fieldManager force now)"
  unfolding Apply_def
  using merge conflict
  by (auto simp: acc dec parse nomf ver Let_def returnsBadRequest_simps
        Apply_encode_not_bad_request
        split: sum.splits prod.splits error.splits)

lemma sublist_middle: "sublist xs (ps @ xs @ ss)"
  by (auto simp: sublist_def)

lemma sublist_end: "sublist xs (ps @ xs)"
  using sublist_middle [of xs ps "[]"] by simp

text \<open>
  Claim C4, as the code has it. Let the live object have an accessor and a ledger
  that decodes, and let neither the merge engine nor the conflict translation give
  an error of the bad-request class. Then \<open>Apply\<close> returns no object and a
  bad-request error exactly when the patch does not parse, or its
  \<open>metadata.managedFields\<close> is not nil (an empty list is not nil), or its API version
  differs from the working version of the manager. In the last case the message
  contains the version of the patch and the expected version.
\<close>

theorem C4_Apply_patch_validation:
  assumes acc: "meta_Accessor ext liveObj = None"
    and dec: "DecodeObjectManagedFields ext liveObj = Inr managed"
    and merge: "\<And>live config version managers manager force err.
        Updater_Apply (updater f) live config version managers manager force = Inl err
        \<Longrightarrow> \<not> isBadRequest err"
    and conflict: "\<And>conflicts. \<not> isBadRequest (NewConflictError ext conflicts)"
  shows "(returnsBadRequest (Apply ext f liveObj patch fieldManager force now) \<longleftrightarrow>
            (\<exists>err. yaml_Unmarshal ext patch = Inl err)
            \<or> (\<exists>patchObj. yaml_Unmarshal ext patch = Inr patchObj
                  \<and> (GetManagedFields ext patchObj \<noteq> None
                       \<or> GetAPIVersion ext patchObj \<noteq> GroupVersion_String ext (groupVersion f))))
         \<and> (\<forall>patchObj. yaml_Unmarshal ext patch = Inr patchObj
                \<and> GetManagedFields ext patchObj = None
                \<and> GetAPIVersion ext patchObj \<noteq> GroupVersion_String ext (groupVersion f)
              \<longrightarrow> (\<exists>msg. Apply ext f liveObj patch fieldManager force now
                             = Result None (Some (StatusError StatusReasonBadRequest msg))
                         \<and> sublist (GetAPIVersion ext patchObj) msg
                         \<and> sublist (GroupVersion_String ext (groupVersion f)) msg))"
proof (cases "yaml_Unmarshal ext patch")
  case (Inl err)
  then have "Apply ext f liveObj patch fieldManager force now =
               Result None (Some (NewBadRequest (''error decoding YAML: '' @ Error err)))"
    by (simp add: Apply_def acc dec)
  with Inl show ?thesis by (simp add: returnsBadRequest_simps)
next
  case (Inr patchObj)
  let ?gv = "GroupVersion_String ext (groupVersion f)"
  show ?thesis
  proof (cases "GetManagedFields ext patchObj \<noteq> None")
    case True
    with Inr have "Apply ext f liveObj patch fieldManager force now =
                     Result None (Some (NewBadRequest ''metadata.managedFields must be nil''))"
      by (simp add: Apply_def acc dec)
    with Inr True show ?thesis by (auto simp: returnsBadRequest_simps)
  next
    case nomf: False
    show ?thesis
    proof (cases "GetAPIVersion ext patchObj = ?gv")
      case True
      from Apply_validated_not_bad_request [OF acc dec Inr _ True merge conflict] nomf
      have "\<not> returnsBadRequest (Apply ext f liveObj patch fieldManager force now)"
        by simp
      with Inr nomf True show ?thesis by simp
    next
      case False
      let ?msg = "''Incorrect version specified in apply patch. Specified patch version: ''
                    @ GetAPIVersion ext patchObj @ '', expected: '' @ ?gv"
      from Inr nomf False
      have res: "Apply ext f liveObj patch fieldManager force now =
                   Result None (Some (StatusError StatusReasonBadRequest ?msg))"
        by (simp add: Apply_def acc dec NewBadRequest_def)
      have s1: "sublist (GetAPIVersion ext patchObj) ?msg"
        by (rule sublist_middle)
      have "sublist ?gv
              ((''Incorrect version specified in apply patch. Specified patch version: ''
                  @ GetAPIVersion ext patchObj @ '', expected: '') @ ?gv)"
        by (rule sublist_end)
      then have s2: "sublist ?gv ?msg" by simp
      from res s1 s2 Inr False show ?thesis
        by (auto simp: returnsBadRequest_def isBadRequest_def)
    qed
  qed
qed

theorem C4_Apply_patch_validation_witness:
  "returnsBadRequest (Apply demo_ext demo_fm ''live'' ''apiVersion: v2'' ''kubectl'' False 200)
   \<and> (\<exists>msg. Apply demo_ext demo_fm ''live'' ''apiVersion: v2'' ''kubectl'' False 200
               = Result None (Some (StatusError StatusReasonBadRequest msg))
            \<and> sublist ''v2'' msg \<and> sublist ''v1'' msg)
   \<and> returnsBadRequest (Apply demo_ext demo_fm ''live'' ''{'' ''kubectl'' False 200)
   \<and> \<not> returnsBadRequest
         (Apply demo_ext demo_fm ''live'' ''conflicting'' ''kubectl'' False 200)"
proof -
  have merge: "\<not> isBadRequest err"
    if "Updater_Apply (updater demo_fm) live config version managers manager force = Inl err"
    for live config version managers manager force err
    using that by (auto simp: demo_Updater_Apply isBadRequest_def split: if_splits)
  have conflict: "\<not> isBadRequest (NewConflictError demo_ext conflicts)" for conflicts
    by (simp add: demo_ext_simps isBadRequest_def)
  note c = C4_Apply_patch_validation [where ext = demo_ext and f = demo_fm
             and fieldManager = "''kubectl''" and force = False and now = 200,
             OF demo_Apply_prefix(1,2) merge conflict]
  from c [where patch = "''apiVersion: v2''"]
  have a: "returnsBadRequest
             (Apply demo_ext demo_fm ''live'' ''apiVersion: v2'' ''kubectl'' False 200)"
    and b: "\<exists>msg. Apply demo_ext demo_fm ''live'' ''apiVersion: v2'' ''kubectl'' False 200
               = Result None (Some (StatusError StatusReasonBadRequest msg))
            \<and> sublist ''v2'' msg \<and> sublist ''v1'' msg"
    by (simp_all add: demo_ext_simps demo_fm_simps)
  from c [where patch = "''{''"]
  have d: "returnsBadRequest (Apply demo_ext demo_fm ''live'' ''{'' ''kubectl'' False 200)"
    by (simp add: demo_ext_simps)
  from c [where patch = "''conflicting''"]
  have e: "\<not> returnsBadRequest
             (Apply demo_ext demo_fm ''live'' ''conflicting'' ''kubectl'' False 200)"
    by (simp add: demo_ext_simps demo_fm_simps)
  from a b d e show ?thesis by blast
qed

text \<open>
  Two inputs at which the statement of C4 fails without these changes. A patch that
  parses, has the working version and declares an empty \<open>managedFields\<close> list is
  rejected as a bad request. A patch that does not parse, applied to a live object
  without accessor, gives the accessor error, which is not of the bad-request
  class.
\<close>

theorem C4_counterexample:
  "yaml_Unmarshal demo_ext ''metadata: {managedFields: []}''
     = Inr ''metadata: {managedFields: []}''
   \<and> GetManagedFields demo_ext ''metadata: {managedFields: []}'' = Some []
   \<and> GetAPIVersion demo_ext ''metadata: {managedFields: []}''
       = GroupVersion_String demo_ext (groupVersion demo_fm)
   \<and> Apply demo_ext demo_fm ''live'' ''metadata: {managedFields: []}'' ''kubectl'' False 200
       = Result None (Some (StatusError StatusReasonBadRequest
                              ''metadata.managedFields must be nil''))
   \<and> yaml_Unmarshal demo_ext ''{''
       = Inl (ErrorString ''yaml: did not find expected node content'')
   \<and> Apply demo_ext demo_fm ''event'' ''{'' ''kubectl'' False 200
       = Result None (Some (ErrorString
           ''couldn't get accessor: object does not implement the Object interfaces''))
   \<and> \<not> returnsBadRequest (Apply demo_ext demo_fm ''event'' ''{'' ''kubectl'' False 200)"
  by (simp add: Apply_def demo_ext_simps demo_fm_simps NewBadRequest_def Errorf_def
        returnsBadRequest_def isBadRequest_def)

subsection \<open>Failure of the merge engine\<close>

text \<open>
  Claim C3. When every step before the merge succeeds and the merge engine's Apply
  fails, \<open>Apply\<close> returns no object; the error is the translation by
  \<open>NewConflictError\<close> when the failure is a \<open>Conflicts\<close> value, and the failure
  itself, unchanged, otherwise.
\<close>

theorem C3_Apply_merge_failure:
  assumes acc: "meta_Accessor ext liveObj = None"
    and dec: "DecodeObjectManagedFields ext liveObj = Inr managed"
    and parse: "yaml_Unmarshal ext patch = Inr patchObj"
    and nomf: "GetManagedFields ext patchObj = None"
    and ver: "GetAPIVersion ext patchObj = GroupVersion_String ext (groupVersion f)"
    and liveV: "toVersioned f liveObj = Inr liveObjVersioned"
    and patchT: "ObjectToTyped (typeConverter f) patchObj = Inr patchObjTyped"
    and liveT: "ObjectToTyped (typeConverter f) (RemoveObjectManagedFields ext liveObjVersioned)
                 = Inr liveObjTyped"
    and ident: "buildManagerInfo ext f fieldManager ManagedFieldsOperationApply = Inr manager"
    and failed: "Updater_Apply (updater f) liveObjTyped patchObjTyped
                   (GroupVersion_String ext (groupVersion f)) (Fields managed) manager force
                 = Inl err"
  shows "(\<forall>conflicts msg. err = Conflicts conflicts msg \<longrightarrow>
            Apply ext f liveObj patch fieldManager force now =
              Result None (Some (NewConflictError ext conflicts)))
         \<and> ((\<forall>conflicts msg. err \<noteq> Conflicts conflicts msg) \<longrightarrow>
            Apply ext f liveObj patch fieldManager force now = Result None (Some err))"
proof -
  have "Apply ext f liveObj patch fieldManager force now =
          (case err of
             Conflicts conflicts msg \<Rightarrow> Result None (Some (NewConflictError ext conflicts))
           | _ \<Rightarrow> Result None (Some err))"
    unfolding Apply_def
    by (simp add: acc dec parse nomf ver liveV patchT liveT ident failed Let_def)
  then show ?thesis by (cases err) simp_all
qed

theorem C3_Apply_merge_failure_witness:
  "Apply demo_ext demo_fm ''live'' ''conflicting'' ''kubectl'' False 200
     = Result None (Some (StatusError StatusReasonConflict ''Apply failed with conflicts''))
   \<and> Apply demo_ext demo_fm ''live'' ''malformed'' ''kubectl'' False 200
     = Result None (Some (ErrorString ''schema error''))"
proof -
  have p1: "yaml_Unmarshal demo_ext ''conflicting'' = Inr ''conflicting''"
    and n1: "GetManagedFields demo_ext ''conflicting'' = None"
    and v1: "GetAPIVersion demo_ext ''conflicting''
               = GroupVersion_String demo_ext (groupVersion demo_fm)"
    and t1: "ObjectToTyped (typeConverter demo_fm) ''conflicting'' = Inr ''conflicting''"
    and f1: "Updater_Apply (updater demo_fm) ''live'' ''conflicting''
               (GroupVersion_String demo_ext (groupVersion demo_fm)) (Fields demo_ledger)
               ''kubectl/Apply/v1'' False
             = Inl (Conflicts [Conflict ''kubectl/Update/v1''
                                 [FieldName ''spec'', FieldName ''image'']]
                      ''conflict with kubectl: .spec.image'')"
    by (simp_all add: demo_ext_simps demo_fm_simps demo_Updater_Apply)
  have p2: "yaml_Unmarshal demo_ext ''malformed'' = Inr ''malformed''"
    and n2: "GetManagedFields demo_ext ''malformed'' = None"
    and v2: "GetAPIVersion demo_ext ''malformed''
               = GroupVersion_String demo_ext (groupVersion demo_fm)"
    and t2: "ObjectToTyped (typeConverter demo_fm) ''malformed'' = Inr ''malformed''"
    and f2: "Updater_Apply (updater demo_fm) ''live'' ''malformed''
               (GroupVersion_String demo_ext (groupVersion demo_fm)) (Fields demo_ledger)
               ''kubectl/Apply/v1'' False
             = Inl (ErrorString ''schema error'')"
    by (simp_all add: demo_ext_simps demo_fm_simps demo_Updater_Apply)
  from C3_Apply_merge_failure [OF demo_Apply_prefix(1,2) p1 n1 v1 demo_Apply_prefix(3) t1
         demo_Apply_prefix(4) demo_buildManagerInfo(2) f1, of 200]
  have a: "Apply demo_ext demo_fm ''live'' ''conflicting'' ''kubectl'' False 200
     = Result None (Some (StatusError StatusReasonConflict ''Apply failed with conflicts''))"
    by (simp add: demo_ext_simps)
  from C3_Apply_merge_failure [OF demo_Apply_prefix(1,2) p2 n2 v2 demo_Apply_prefix(3) t2
         demo_Apply_prefix(4) demo_buildManagerInfo(2) f2, of 200]
  have b: "Apply demo_ext demo_fm ''live'' ''malformed'' ''kubectl'' False 200
     = Result None (Some (ErrorString ''schema error''))"
    by simp
  from a b show ?thesis by blast
qed

subsection \<open>The time of the applying identity\<close>

text \<open>
  Claim C10. After the strip, \<open>Apply\<close> writes the time of the built identity whatever
  the strip did. The ledger given to the encoder has the stripped field sets and
  the times with \<open>now\<close> under the identity; when the strip emptied the identity's set
  and deleted its entry, that ledger has a time for the identity and no field set.
\<close>

theorem C10_Apply_timestamp_without_entry:
  assumes acc: "meta_Accessor ext liveObj = None"
    and dec: "DecodeObjectManagedFields ext liveObj = Inr managed"
    and parse: "yaml_Unmarshal ext patch = Inr patchObj"
    and nomf: "GetManagedFields ext patchObj = None"
    and ver: "GetAPIVersion ext patchObj = GroupVersion_String ext (groupVersion f)"
    and liveV: "toVersioned f liveObj = Inr liveObjVersioned"
    and patchT: "ObjectToTyped (typeConverter f) patchObj = Inr patchObjTyped"
    and liveT: "ObjectToTyped (typeConverter f) (RemoveObjectManagedFields ext liveObjVersioned)
                 = Inr liveObjTyped"
    and ident: "buildManagerInfo ext f fieldManager ManagedFieldsOperationApply = Inr manager"
    and merged: "Updater_Apply (updater f) liveObjTyped patchObjTyped
                   (GroupVersion_String ext (groupVersion f)) (Fields managed) manager force
                 = Inr (newObjTyped, managedFields)"
    and strip: "stripFields managedFields manager = Inr stripped"
    and obj: "TypedToObject (typeConverter f) newObjTyped = Inr newObj"
  shows "Apply ext f liveObj patch fieldManager force now =
           (case EncodeObjectManagedFields ext newObj
                   \<lparr>Fields = stripped, Times = (Times managed)(manager \<mapsto> now)\<rparr> of
              Inl err \<Rightarrow> Result None (Some (Errorf ''failed to encode managed fields: '' err))
            | Inr encoded \<Rightarrow>
               (case toVersioned f encoded of
                  Inl err \<Rightarrow> Result None
                    (Some (Errorf ''failed to convert new object to proper version: '' err))
                | Inr versioned \<Rightarrow>
                   (case toUnversioned f (Default (objectDefaulter f) versioned) of
                      Inl err \<Rightarrow> Result None
                        (Some (Errorf ''failed to convert to unversioned: '' err))
                    | Inr unversioned \<Rightarrow> Result (Some unversioned) None)))
         \<and> ((Times managed)(manager \<mapsto> now)) manager = Some now
         \<and> (\<forall>vs. managedFields manager = Some (Some vs) \<and> vs_Set vs \<subseteq> stripSet \<longrightarrow>
               stripped manager = None)"
proof -
  have a: "Apply ext f liveObj patch fieldManager force now =
             Apply_encode ext f newObj
               \<lparr>Fields = stripped, Times = (Times managed)(manager \<mapsto> now)\<rparr>"
    unfolding Apply_def
    by (simp add: acc dec parse nomf ver liveV patchT liveT ident merged strip obj Let_def
          Managed_updated)
  have b: "stripped manager = None"
    if "managedFields manager = Some (Some vs)" "vs_Set vs \<subseteq> stripSet" for vs
  proof -
    from that(2) have "vs_Set vs - stripSet = {}" by blast
    with that(1) strip have "stripped = managedFields(manager := None)"
      by (simp add: stripFields_present)
    then show ?thesis by simp
  qed
  from b show ?thesis
    unfolding a Apply_encode_def Let_def by simp
qed

theorem C10_Apply_timestamp_without_entry_witness:
  "\<exists>stripped.
     stripFields
       ((Fields demo_ledger)(''kubectl/Apply/v1'' \<mapsto> Some
          \<lparr>vs_Set = {[FieldName ''metadata'', FieldName ''name'']},
           vs_APIVersion = ''v1'', vs_Applied = True\<rparr>))
       ''kubectl/Apply/v1'' = Inr stripped
     \<and> stripped ''kubectl/Apply/v1'' = None
     \<and> ((Times demo_ledger)(''kubectl/Apply/v1'' \<mapsto> 200)) ''kubectl/Apply/v1'' = Some 200
     \<and> Apply demo_ext demo_fm ''live'' ''name-only'' ''kubectl'' False 200 =
         (case EncodeObjectManagedFields demo_ext ''name-only''
                 \<lparr>Fields = stripped,
                  Times = (Times demo_ledger)(''kubectl/Apply/v1'' \<mapsto> 200)\<rparr> of
            Inl err \<Rightarrow> Result None (Some (Errorf ''failed to encode managed fields: '' err))
          | Inr encoded \<Rightarrow> Result (Some encoded) None)"
proof -
  let ?vs = "\<lparr>vs_Set = {[FieldName ''metadata'', FieldName ''name'']},
              vs_APIVersion = ''v1'', vs_Applied = True\<rparr>"
  let ?merged = "(Fields demo_ledger)(''kubectl/Apply/v1'' \<mapsto> Some ?vs)"
  have p: "yaml_Unmarshal demo_ext ''name-only'' = Inr ''name-only''"
    and n: "GetManagedFields demo_ext ''name-only'' = None"
    and v: "GetAPIVersion demo_ext ''name-only''
               = GroupVersion_String demo_ext (groupVersion demo_fm)"
    and t: "ObjectToTyped (typeConverter demo_fm) ''name-only'' = Inr ''name-only''"
    and m: "Updater_Apply (updater demo_fm) ''live'' ''name-only''
               (GroupVersion_String demo_ext (groupVersion demo_fm)) (Fields demo_ledger)
               ''kubectl/Apply/v1'' False
             = Inr (''name-only'', ?merged)"
    and ob: "TypedToObject (typeConverter demo_fm) ''name-only'' = Inr ''name-only''"
    by (simp_all add: demo_ext_simps demo_fm_simps demo_Updater_Apply NewVersionedSet_def)
  have owned: "?merged ''kubectl/Apply/v1'' = Some (Some ?vs)"
    by simp
  have sub: "vs_Set ?vs \<subseteq> stripSet"
    by (simp add: stripSet_paths)
  from stripFields_present [of ?merged "''kubectl/Apply/v1''" ?vs, OF owned]
  obtain stripped where s: "stripFields ?merged ''kubectl/Apply/v1'' = Inr stripped"
    by blast
  from C10_Apply_timestamp_without_entry [OF demo_Apply_prefix(1,2) p n v demo_Apply_prefix(3) t
         demo_Apply_prefix(4) demo_buildManagerInfo(2) m s ob, of 200] owned sub
  have "Apply demo_ext demo_fm ''live'' ''name-only'' ''kubectl'' False 200 =
         (case EncodeObjectManagedFields demo_ext ''name-only''
                 \<lparr>Fields = stripped,
                  Times = (Times demo_ledger)(''kubectl/Apply/v1'' \<mapsto> 200)\<rparr> of
            Inl err \<Rightarrow> Result None (Some (Errorf ''failed to encode managed fields: '' err))
          | Inr encoded \<Rightarrow> Result (Some encoded) None)"
    and "stripped ''kubectl/Apply/v1'' = None"
    and "((Times demo_ledger)(''kubectl/Apply/v1'' \<mapsto> 200)) ''kubectl/Apply/v1'' = Some 200"
    by (simp_all add: demo_ext_simps demo_fm_simps)
  with s show ?thesis by blast
qed

end
